theory Spec2Isabelle
  imports Main "HOL-Library.AList"
begin

section \<open>Python values\<close>

text \<open>
  The values that reach the plugins come from YAML configuration and from JSON response
  bodies: \<^verbatim>\<open>None\<close>, booleans, integers, strings, lists and dictionaries with string
  keys. A dictionary is an association list in insertion order (the order in which
  \<^verbatim>\<open>.items()\<close> iterates); floating-point numbers are outside the model.
\<close>

datatype pyval =
    PNone
  | PBool bool
  | PInt int
  | PStr string
  | PList "pyval list"
  | PDict "(string \<times> pyval) list"

text \<open>Truthiness, as \<^verbatim>\<open>if x:\<close> tests it.\<close>

fun py_truthy :: "pyval \<Rightarrow> bool" where
  "py_truthy PNone = False"
| "py_truthy (PBool b) = b"
| "py_truthy (PInt i) = (i \<noteq> 0)"
| "py_truthy (PStr s) = (s \<noteq> [])"
| "py_truthy (PList xs) = (xs \<noteq> [])"
| "py_truthy (PDict kvs) = (kvs \<noteq> [])"

text \<open>\<^verbatim>\<open>bool\<close> is a subclass of \<^verbatim>\<open>int\<close>: \<^verbatim>\<open>True == 1\<close> and \<^verbatim>\<open>False == 0\<close>.\<close>

definition bool_int :: "bool \<Rightarrow> int" where
  "bool_int b = (if b then 1 else 0)"

text \<open>
  Python's \<^verbatim>\<open>==\<close> on these values: lists compare element by element in order,
  dictionaries compare by size and by the value under every key, whatever the insertion
  order; values of different kinds are unequal, apart from booleans and integers.
\<close>

fun py_eq :: "pyval \<Rightarrow> pyval \<Rightarrow> bool" where
  "py_eq PNone PNone = True"
| "py_eq (PBool a) (PBool b) = (a = b)"
| "py_eq (PBool a) (PInt j) = (bool_int a = j)"
| "py_eq (PInt i) (PBool b) = (i = bool_int b)"
| "py_eq (PInt i) (PInt j) = (i = j)"
| "py_eq (PStr s) (PStr t) = (s = t)"
| "py_eq (PList xs) (PList ys) = list_all2 py_eq xs ys"
| "py_eq (PDict kvs) (PDict lws) =
     (length kvs = length lws \<and>
      list_all (\<lambda>(k, v). case map_of lws k of None \<Rightarrow> False | Some w \<Rightarrow> py_eq v w) kvs)"
| "py_eq _ _ = False"

text \<open>The exceptions the two plugins can raise, and the messages of assertion failures.\<close>

datatype assert_msg =
    NoMessage
  | KeyNotEqual string pyval pyval
  | KeyNotFound string

datatype error =
    AssertionError assert_msg
  | KeyError string
  | TypeError string
  | ValueError string
  | AttributeError string
  | JSONDecodeError
  | ExpatError
  | FileNotFoundError
  | OtherError string

section \<open>The REST plugin: data model\<close>

datatype Method = POST | GET | PUT | DELETE

datatype Type = XML | JSON | TEXT

type_synonym handle = nat

text \<open>
  An entry of the \<^verbatim>\<open>files\<close> mapping after augmentation: a \<^verbatim>\<open>LoadedFile\<close> triple
  (path, open handle, media type) or an \<^verbatim>\<open>EmptyFile\<close> triple (None, text, media type).
\<close>

datatype file_part =
    LoadedFile string handle pyval
  | EmptyFile string string

record Cert =
  cert_path :: string
  cert_key :: "string option"

text \<open>
  The augmented \<^verbatim>\<open>RestCall\<close>. The key \<^verbatim>\<open>method\<close> is the field \<open>http_method\<close>. The
  assertion stays the dictionary it is in the source (it is compared as a whole in
  \<^verbatim>\<open>assert_response\<close>), with its keys \<^verbatim>\<open>value\<close> and \<^verbatim>\<open>only_defined\<close>.
\<close>

record RestCall =
  base_url :: string
  path :: string
  url :: string
  http_method :: Method
  data :: pyval
  files :: "(string \<times> file_part) list option"
  multipart :: "(string \<times> file_part) list option"
  timeout :: int
  headers :: "(string \<times> pyval) list"
  verify :: bool
  cert :: "Cert option"
  response_type :: Type
  assertion :: "(string \<times> pyval) list option"
  hide_logs :: bool
  status_codes :: "int list"

text \<open>
  The keyword dictionary \<^verbatim>\<open>data\<close> that \<^verbatim>\<open>assert_response\<close> builds and passes as
  \<^verbatim>\<open>**data\<close>: a key that was never set is \<open>None\<close>.
\<close>

record request_kwargs =
  kw_headers :: "(string \<times> pyval) list"
  kw_files :: "(string \<times> file_part) list option"
  kw_data :: "string option"
  kw_timeout :: "int option"
  kw_verify :: bool

text \<open>What reaches the HTTP transport, and what comes back.\<close>

record http_request =
  rq_method :: Method
  rq_url :: string
  rq_timeout :: int
  rq_headers :: "(string \<times> pyval) list"
  rq_files :: "(string \<times> file_part) list option"
  rq_data :: "string option"
  rq_verify :: bool

text \<open>
  \<open>json_body\<close> is the result of \<^verbatim>\<open>response.json()\<close>; \<open>None\<close> stands for a body
  that does not parse (\<^verbatim>\<open>JSONDecodeError\<close>).
\<close>

record http_response =
  status_code :: int
  body_text :: string
  json_body :: "pyval option"

text \<open>The observable effects, in order: log lines and requests handed to the transport.\<close>

datatype log_msg =
    MakeCall Method string
  | ResponseStatus int
  | ResponseJson pyval
  | ResponseText string
  | AssertionTypeNotSupported
  | Expected string

datatype event =
    LogInfo log_msg
  | LogError log_msg
  | Sent http_request

text \<open>
  The library functions the plugin calls, as parameters: the HTTP transport
  (\<^verbatim>\<open>requests\<close>), \<^verbatim>\<open>json.dumps\<close> with and without indentation, \<^verbatim>\<open>str\<close> of a
  dictionary, the XML parser and printer of \<^verbatim>\<open>xml.dom.minidom\<close>, and \<^verbatim>\<open>open\<close>.
\<close>

record env =
  transport :: "http_request \<Rightarrow> error + http_response"
  dumps :: "pyval \<Rightarrow> string"
  dumps_indent :: "pyval \<Rightarrow> string"
  py_str :: "pyval \<Rightarrow> string"
  parseString :: "string \<Rightarrow> error + string"
  toprettyxml :: "string \<Rightarrow> string"
  open_file :: "string \<Rightarrow> bool \<Rightarrow> error + handle"

section \<open>The REST plugin: execution\<close>

definition pretty_xml :: "env \<Rightarrow> string \<Rightarrow> error + string" where
  "pretty_xml e xml =
     (case parseString e xml of
        Inl err \<Rightarrow> Inl err
      | Inr doc \<Rightarrow> Inr (toprettyxml e doc))"

definition pretty_json :: "env \<Rightarrow> string \<Rightarrow> string" where
  "pretty_json e json = dumps_indent e (PStr json)"

text \<open>Truthiness of an optional dictionary: neither \<^verbatim>\<open>None\<close> nor empty.\<close>

definition dict_truthy :: "(string \<times> 'v) list option \<Rightarrow> bool" where
  "dict_truthy d = (case d of None \<Rightarrow> False | Some kvs \<Rightarrow> kvs \<noteq> [])"

text \<open>
  ``Add multipart as files'': every multipart entry is assigned into \<^verbatim>\<open>call["files"]\<close>
  (created empty when it was \<^verbatim>\<open>None\<close>). \<open>AList.update\<close> is the dictionary assignment:
  it replaces the value of a key that exists and appends a new key at the end.
\<close>

definition add_multipart :: "RestCall \<Rightarrow> RestCall" where
  "add_multipart call =
     (if dict_truthy (multipart call) then
        (let call1 = (if files call = None then call\<lparr>files := Some []\<rparr> else call)
         in (case (files call1, multipart call1) of
               (Some fs, Some parts) \<Rightarrow>
                 call1\<lparr>files := Some (fold (\<lambda>(key, v). AList.update key v) parts fs)\<rparr>
             | _ \<Rightarrow> call1))
      else call)"

text \<open>
  ``Add data or files'', ``Add timeout'', ``Add verify''. \<^verbatim>\<open>data["headers"]\<close> is the very
  dictionary \<^verbatim>\<open>call["headers"]\<close>, so \<^verbatim>\<open>del data["headers"]["Content-Type"]\<close> changes
  the call as well; \<^verbatim>\<open>del\<close> of a key that is absent raises \<^verbatim>\<open>KeyError\<close>. The
  function returns the keyword dictionary (or the exception) and the call as it has
  become.
\<close>

definition build_kwargs :: "env \<Rightarrow> RestCall \<Rightarrow> (error + request_kwargs) \<times> RestCall" where
  "build_kwargs e call0 =
     (let call1 = add_multipart call0;
          kw_t = (if timeout call1 \<noteq> 0 then Some (timeout call1) else None)
      in if dict_truthy (files call1) then
           (if map_of (headers call1) ''Content-Type'' = None then
              (Inl (KeyError ''Content-Type''), call1)
            else
              (let call2 = call1\<lparr>headers := AList.delete ''Content-Type'' (headers call1)\<rparr>
               in (Inr \<lparr>kw_headers = headers call2, kw_files = files call2, kw_data = None,
                        kw_timeout = kw_t, kw_verify = verify call2\<rparr>, call2)))
         else if data call1 \<noteq> PNone then
           (Inr \<lparr>kw_headers = headers call1, kw_files = None,
                 kw_data = Some (dumps e (data call1)),
                 kw_timeout = kw_t, kw_verify = verify call1\<rparr>, call1)
         else
           (Inr \<lparr>kw_headers = headers call1, kw_files = None, kw_data = None,
                 kw_timeout = kw_t, kw_verify = verify call1\<rparr>, call1))"

text \<open>
  \<^verbatim>\<open>get(url, timeout=10, **data)\<close> and its three siblings: the call names the keyword
  \<^verbatim>\<open>timeout\<close> itself, so a \<^verbatim>\<open>timeout\<close> key in \<^verbatim>\<open>data\<close> is a second value for the
  same keyword and Python raises \<^verbatim>\<open>TypeError\<close> before the function of \<^verbatim>\<open>requests\<close>
  runs. Otherwise the request goes to the transport with timeout 10.
\<close>

definition call_verb ::
  "env \<Rightarrow> Method \<Rightarrow> string \<Rightarrow> request_kwargs \<Rightarrow> event list \<Rightarrow>
   (error + http_response) \<times> event list" where
  "call_verb e m u kw tr =
     (case kw_timeout kw of
        Some t \<Rightarrow> (Inl (TypeError ''multiple values for keyword argument timeout''), tr)
      | None \<Rightarrow>
          (let rq = \<lparr>rq_method = m, rq_url = u, rq_timeout = 10, rq_headers = kw_headers kw,
                     rq_files = kw_files kw, rq_data = kw_data kw, rq_verify = kw_verify kw\<rparr>
           in (transport e rq, tr @ [Sent rq])))"

definition dispatch ::
  "env \<Rightarrow> RestCall \<Rightarrow> request_kwargs \<Rightarrow> event list \<Rightarrow> (error + http_response) \<times> event list" where
  "dispatch e call kw tr =
     (case http_method call of
        GET \<Rightarrow> call_verb e GET (url call) kw tr
      | POST \<Rightarrow> call_verb e POST (url call) kw tr
      | PUT \<Rightarrow> call_verb e PUT (url call) kw tr
      | DELETE \<Rightarrow> call_verb e DELETE (url call) kw tr)"

text \<open>The response log line: the JSON body when it parses, the raw text otherwise.\<close>

definition log_response :: "http_response \<Rightarrow> event" where
  "log_response r =
     (case json_body r of
        Some j \<Rightarrow> LogInfo (ResponseJson j)
      | None \<Rightarrow> LogInfo (ResponseText (body_text r)))"

text \<open>
  The loop of the \<^verbatim>\<open>only_defined\<close> branch over the items of the expected mapping: a
  key the response lacks raises \<^verbatim>\<open>KeyError\<close> while the message is built, which becomes
  the assertion failure ``Key ... not found in response''; a value that differs fails
  with the message naming the key and both values. The first failing key ends the loop.
\<close>

fun check_defined :: "(string \<times> pyval) list \<Rightarrow> (string \<times> pyval) list \<Rightarrow> error + unit" where
  "check_defined [] response_json = Inr ()"
| "check_defined ((key, v) # rest) response_json =
     (case map_of response_json key of
        None \<Rightarrow> Inl (AssertionError (KeyNotFound key))
      | Some w \<Rightarrow>
          if py_eq w v then check_defined rest response_json
          else Inl (AssertionError (KeyNotEqual key v w)))"

text \<open>\<^verbatim>\<open>assert response.json() == call["assertion"]\<close>: the comparison is with the whole
  assertion dictionary.\<close>

definition assert_json_equals :: "http_response \<Rightarrow> (string \<times> pyval) list \<Rightarrow> error + unit" where
  "assert_json_equals r a =
     (case json_body r of
        None \<Rightarrow> Inl JSONDecodeError
      | Some j \<Rightarrow> if py_eq j (PDict a) then Inr () else Inl (AssertionError NoMessage))"

text \<open>``Compare the response'': the branches on the kind of \<^verbatim>\<open>call["assertion"]["value"]\<close>.\<close>

definition compare_response ::
  "RestCall \<Rightarrow> http_response \<Rightarrow> (error + unit) \<times> event list" where
  "compare_response call r =
     (case assertion call of
        None \<Rightarrow> (Inr (), [])
      | Some a \<Rightarrow>
          (case map_of a ''value'' of
             None \<Rightarrow> (Inl (KeyError ''value''), [])
           | Some (PStr s) \<Rightarrow>
               (if body_text r = s then (Inr (), []) else (Inl (AssertionError NoMessage), []))
           | Some (PDict expected) \<Rightarrow>
               (case map_of a ''only_defined'' of
                  None \<Rightarrow> (Inl (KeyError ''only_defined''), [])
                | Some od \<Rightarrow>
                    if py_truthy od then
                      (case json_body r of
                         None \<Rightarrow> (Inl JSONDecodeError, [])
                       | Some (PDict response_json) \<Rightarrow> (check_defined expected response_json, [])
                       | Some _ \<Rightarrow> (Inl (AssertionError NoMessage), []))
                    else (assert_json_equals r a, []))
           | Some (PList expected) \<Rightarrow> (assert_json_equals r a, [])
           | Some _ \<Rightarrow> (Inl (AssertionError NoMessage), [LogError AssertionTypeNotSupported])))"

definition assert_response :: "env \<Rightarrow> RestCall \<Rightarrow> (error + unit) \<times> RestCall \<times> event list" where
  "assert_response e call0 =
     (case build_kwargs e call0 of
        (Inl err, call1) \<Rightarrow> (Inl err, call1, [])
      | (Inr kw, call1) \<Rightarrow>
          (case dispatch e call1 kw [LogInfo (MakeCall (http_method call1) (url call1))] of
             (Inl err, tr) \<Rightarrow> (Inl err, call1, tr)
           | (Inr response, tr) \<Rightarrow>
               (let tr1 = tr @ [LogInfo (ResponseStatus (status_code response))];
                    tr2 = (if hide_logs call1 then tr1 else tr1 @ [log_response response])
                in if status_code response \<in> set (status_codes call1) then
                     (case compare_response call1 response of
                        (res, evs) \<Rightarrow> (res, call1, tr2 @ evs))
                   else (Inl (AssertionError NoMessage), call1, tr2))))"

text \<open>
  \<^verbatim>\<open>make_rest_call\<close>: only \<^verbatim>\<open>AssertionError\<close> is caught. The handler logs the expected
  value and ends with \<^verbatim>\<open>raise e\<close>, both inside \<^verbatim>\<open>if call["assertion"] is not None\<close>;
  with no assertion configured the handler falls through and the function returns.
  An exception of \<^verbatim>\<open>pretty_xml\<close> leaves the handler in place of the assertion failure.
\<close>

definition make_rest_call :: "env \<Rightarrow> RestCall \<Rightarrow> (error + unit) \<times> RestCall \<times> event list" where
  "make_rest_call e call0 =
     (case assert_response e call0 of
        (Inr u, call1, tr) \<Rightarrow> (Inr u, call1, tr)
      | (Inl err, call1, tr) \<Rightarrow>
          (case err of
             AssertionError m \<Rightarrow>
               (case assertion call1 of
                  None \<Rightarrow> (Inr (), call1, tr)
                | Some a \<Rightarrow>
                    (case response_type call1 of
                       XML \<Rightarrow>
                         (case pretty_xml e (py_str e (PDict a)) of
                            Inl err2 \<Rightarrow> (Inl err2, call1, tr)
                          | Inr s \<Rightarrow> (Inl (AssertionError m), call1, tr @ [LogError (Expected s)]))
                     | JSON \<Rightarrow>
                         (Inl (AssertionError m), call1,
                          tr @ [LogError (Expected (pretty_json e (py_str e (PDict a))))])
                     | TEXT \<Rightarrow>
                         (Inl (AssertionError m), call1,
                          tr @ [LogError (Expected (py_str e (PDict a)))])))
           | _ \<Rightarrow> (Inl err, call1, tr)))"

section \<open>The REST plugin: augmentation\<close>

text \<open>
  Before augmentation every field of the call is whatever the configuration holds, so
  the raw call is a record of Python values and each \<^verbatim>\<open>isinstance\<close> test is a case
  distinction. Augmentation returns the typed \<open>RestCall\<close> or the exception raised.
\<close>

record raw_rest_call =
  raw_base_url :: pyval
  raw_path :: pyval
  raw_url :: pyval
  raw_method :: pyval
  raw_data :: pyval
  raw_files :: pyval
  raw_multipart :: pyval
  raw_timeout :: pyval
  raw_headers :: pyval
  raw_verify :: pyval
  raw_cert :: pyval
  raw_response_type :: pyval
  raw_assertion :: pyval
  raw_hide_logs :: pyval
  raw_status_codes :: pyval

definition bind_err :: "error + 'a \<Rightarrow> ('a \<Rightarrow> error + 'b) \<Rightarrow> error + 'b" where
  "bind_err m f = (case m of Inl err \<Rightarrow> Inl err | Inr x \<Rightarrow> f x)"

text \<open>
  Paths are POSIX path strings in normal form (no doubled or trailing slash but in the
  root \<^verbatim>\<open>/\<close>, the current directory written \<^verbatim>\<open>.\<close>): \<^verbatim>\<open>is_absolute\<close> looks at the
  leading slash; \<^verbatim>\<open>joinpath\<close> keeps an absolute argument, and appends a relative one
  after a separating slash, which the root \<^verbatim>\<open>/\<close> has already and the current directory
  does without; \<^verbatim>\<open>name\<close> is the last component.
\<close>

definition is_absolute :: "string \<Rightarrow> bool" where
  "is_absolute p = (case p of [] \<Rightarrow> False | c # cs \<Rightarrow> c = CHR ''/'')"

definition joinpath :: "string \<Rightarrow> string \<Rightarrow> string" where
  "joinpath root p =
     (if is_absolute p then p
      else if p = [] \<or> p = ''.'' then root
      else if root = [] \<or> root = ''.'' then p
      else if last root = CHR ''/'' then root @ p
      else root @ ''/'' @ p)"

definition path_name :: "string \<Rightarrow> string" where
  "path_name p = rev (takeWhile (\<lambda>c. c \<noteq> CHR ''/'') (rev p))"

text \<open>``Base URL'', ``Path'', ``Augment the url''.\<close>

definition augment_url :: "raw_rest_call \<Rightarrow> error + (string \<times> string \<times> string)" where
  "augment_url c =
     (case raw_base_url c of
        PStr b \<Rightarrow>
          (case raw_path c of
             PStr p \<Rightarrow>
               (case raw_url c of
                  PNone \<Rightarrow> Inr (b, p, b @ p)
                | PStr u \<Rightarrow> Inr (b, p, u)
                | _ \<Rightarrow> Inl (ValueError ''URL must be a string.''))
           | _ \<Rightarrow> Inl (ValueError ''Path must be a string.''))
      | _ \<Rightarrow> Inl (ValueError ''Base URL must be a string.''))"

text \<open>``Method'': \<^verbatim>\<open>Method[name]\<close> looks the member up by its name.\<close>

definition augment_method :: "raw_rest_call \<Rightarrow> error + Method" where
  "augment_method c =
     (case raw_method c of
        PStr s \<Rightarrow>
          if s = ''POST'' then Inr POST
          else if s = ''GET'' then Inr GET
          else if s = ''PUT'' then Inr PUT
          else if s = ''DELETE'' then Inr DELETE
          else Inl (ValueError ''Method is not supported.'')
      | _ \<Rightarrow> Inl (ValueError ''Method must be a string.''))"

text \<open>``Files'': every entry must be a dictionary; its file is opened and the entry
  replaced by the triple (path, handle, media).\<close>

fun load_files ::
  "env \<Rightarrow> string \<Rightarrow> (string \<times> pyval) list \<Rightarrow> error + (string \<times> file_part) list" where
  "load_files e root [] = Inr []"
| "load_files e root ((key, file) # rest) =
     (case file of
        PDict f \<Rightarrow>
          (case map_of f ''binary'' of
             None \<Rightarrow> Inl (KeyError ''binary'')
           | Some b \<Rightarrow>
               (case map_of f ''path'' of
                  None \<Rightarrow> Inl (KeyError ''path'')
                | Some (PStr p) \<Rightarrow>
                    (case open_file e (joinpath root p) (py_truthy b) of
                       Inl err \<Rightarrow> Inl err
                     | Inr h \<Rightarrow>
                         (case map_of f ''media'' of
                            None \<Rightarrow> Inl (KeyError ''media'')
                          | Some m \<Rightarrow>
                              (case load_files e root rest of
                                 Inl err \<Rightarrow> Inl err
                               | Inr loaded \<Rightarrow> Inr ((key, LoadedFile p h m) # loaded))))
                | Some _ \<Rightarrow> Inl (TypeError ''joinpath'')))
      | _ \<Rightarrow> Inl (ValueError ''File is not a dict.''))"

definition augment_files ::
  "env \<Rightarrow> string \<Rightarrow> raw_rest_call \<Rightarrow> error + (string \<times> file_part) list option" where
  "augment_files e root c =
     (case raw_files c of
        PNone \<Rightarrow> Inr None
      | PDict kvs \<Rightarrow>
          (case load_files e root kvs of Inl err \<Rightarrow> Inl err | Inr loaded \<Rightarrow> Inr (Some loaded))
      | _ \<Rightarrow> Inl (AttributeError ''items''))"

text \<open>``Multipart'': every part becomes \<^verbatim>\<open>(None, dumps(part), "application/json")\<close>.\<close>

definition augment_multipart ::
  "env \<Rightarrow> raw_rest_call \<Rightarrow> error + (string \<times> file_part) list option" where
  "augment_multipart e c =
     (case raw_multipart c of
        PNone \<Rightarrow> Inr None
      | PDict kvs \<Rightarrow>
          Inr (Some (map (\<lambda>(key, part). (key, EmptyFile (dumps e part) ''application/json'')) kvs))
      | _ \<Rightarrow> Inl (AttributeError ''items''))"

text \<open>``Timeout'': a boolean is an instance of \<^verbatim>\<open>int\<close>.\<close>

definition augment_timeout :: "raw_rest_call \<Rightarrow> error + int" where
  "augment_timeout c =
     (case raw_timeout c of
        PInt i \<Rightarrow> Inr i
      | PBool b \<Rightarrow> Inr (bool_int b)
      | _ \<Rightarrow> Inl (ValueError ''Timeout must be an integer, set 0 to disable.''))"

definition augment_headers :: "raw_rest_call \<Rightarrow> error + (string \<times> pyval) list" where
  "augment_headers c =
     (case raw_headers c of
        PNone \<Rightarrow> Inl (ValueError ''Headers are requiered.'')
      | PDict kvs \<Rightarrow> Inr kvs
      | _ \<Rightarrow> Inl (ValueError ''Headers must be a dict.''))"

definition augment_verify :: "raw_rest_call \<Rightarrow> error + bool" where
  "augment_verify c =
     (case raw_verify c of
        PBool b \<Rightarrow> Inr b
      | _ \<Rightarrow> Inl (ValueError ''Verify must be a boolean.''))"

text \<open>``Cert'': both branches of the \<^verbatim>\<open>is_absolute\<close> test join the path to the project
  path.\<close>

definition augment_cert :: "string \<Rightarrow> raw_rest_call \<Rightarrow> error + Cert option" where
  "augment_cert root c =
     (case raw_cert c of
        PNone \<Rightarrow> Inr None
      | PDict d \<Rightarrow>
          (case map_of d ''path'' of
             None \<Rightarrow> Inl (KeyError ''path'')
           | Some PNone \<Rightarrow> Inl (ValueError ''Cert path is requiered for cert.'')
           | Some (PStr p) \<Rightarrow>
               (let p1 = (if is_absolute p then joinpath root p else joinpath root p)
                in case map_of d ''key'' of
                     None \<Rightarrow> Inl (KeyError ''key'')
                   | Some PNone \<Rightarrow> Inr (Some \<lparr>cert_path = p1, cert_key = None\<rparr>)
                   | Some (PStr k) \<Rightarrow> Inr (Some \<lparr>cert_path = p1, cert_key = Some k\<rparr>)
                   | Some _ \<Rightarrow> Inl (ValueError ''Cert key must be a string.''))
           | Some _ \<Rightarrow> Inl (TypeError ''Path''))
      | _ \<Rightarrow> Inl (TypeError ''subscript''))"

definition augment_response_type :: "raw_rest_call \<Rightarrow> error + Type" where
  "augment_response_type c =
     (case raw_response_type c of
        PStr s \<Rightarrow>
          if s = ''XML'' then Inr XML
          else if s = ''JSON'' then Inr JSON
          else if s = ''TEXT'' then Inr TEXT
          else Inl (ValueError ''Response type is not supported.'')
      | _ \<Rightarrow> Inl (ValueError ''Response type must be a string.''))"

text \<open>
  ``Assertion'': \<^verbatim>\<open>only_defined\<close> defaults to \<^verbatim>\<open>False\<close>; the value is required and
  must be a string or a dictionary.
\<close>

definition default_only_defined :: "(string \<times> pyval) list \<Rightarrow> error + (string \<times> pyval) list" where
  "default_only_defined a =
     (case map_of a ''only_defined'' of
        None \<Rightarrow> Inr (AList.update ''only_defined'' (PBool False) a)
      | Some PNone \<Rightarrow> Inr (AList.update ''only_defined'' (PBool False) a)
      | Some (PBool b) \<Rightarrow> Inr a
      | Some _ \<Rightarrow> Inl (ValueError ''Only defined must be a boolean.''))"

definition check_assertion_value :: "(string \<times> pyval) list \<Rightarrow> error + (string \<times> pyval) list" where
  "check_assertion_value a =
     (case map_of a ''value'' of
        None \<Rightarrow> Inl (ValueError ''Assertion value is requiered.'')
      | Some PNone \<Rightarrow> Inl (ValueError ''Assertion value is requiered.'')
      | Some (PStr s) \<Rightarrow> Inr a
      | Some (PDict d) \<Rightarrow> Inr a
      | Some _ \<Rightarrow> Inl (ValueError ''Assertion must be a string or a dict.''))"

definition augment_assertion :: "raw_rest_call \<Rightarrow> error + (string \<times> pyval) list option" where
  "augment_assertion c =
     (case raw_assertion c of
        PNone \<Rightarrow> Inr None
      | PDict a \<Rightarrow>
          bind_err (default_only_defined a) (\<lambda>a1.
          bind_err (check_assertion_value a1) (\<lambda>a2. Inr (Some a2)))
      | _ \<Rightarrow> Inl (ValueError ''Assertion must be a dict.''))"

definition augment_hide_logs :: "raw_rest_call \<Rightarrow> error + bool" where
  "augment_hide_logs c =
     (case raw_hide_logs c of
        PBool b \<Rightarrow> Inr b
      | _ \<Rightarrow> Inl (ValueError ''Hide logs must be a boolean.''))"

fun check_status_codes :: "pyval list \<Rightarrow> error + int list" where
  "check_status_codes [] = Inr []"
| "check_status_codes (x # xs) =
     (case x of
        PInt i \<Rightarrow> (case check_status_codes xs of Inl err \<Rightarrow> Inl err | Inr cs \<Rightarrow> Inr (i # cs))
      | PBool b \<Rightarrow>
          (case check_status_codes xs of Inl err \<Rightarrow> Inl err | Inr cs \<Rightarrow> Inr (bool_int b # cs))
      | _ \<Rightarrow> Inl (ValueError ''Status codes must be integers.''))"

definition augment_status_codes :: "raw_rest_call \<Rightarrow> error + int list" where
  "augment_status_codes c =
     (case raw_status_codes c of
        PList xs \<Rightarrow> check_status_codes xs
      | _ \<Rightarrow> Inl (ValueError ''Status codes must be a list.''))"

text \<open>\<^verbatim>\<open>augment_rest_call\<close>: the sections in the order of the source; the first exception
  ends it.\<close>

definition augment_rest_call :: "env \<Rightarrow> raw_rest_call \<Rightarrow> string \<Rightarrow> error + RestCall" where
  "augment_rest_call e c root =
     bind_err (augment_url c) (\<lambda>(b, p, u).
     bind_err (augment_method c) (\<lambda>m.
     bind_err (augment_files e root c) (\<lambda>fs.
     bind_err (augment_multipart e c) (\<lambda>mp.
     bind_err (augment_timeout c) (\<lambda>t.
     bind_err (augment_headers c) (\<lambda>hs.
     bind_err (augment_verify c) (\<lambda>v.
     bind_err (augment_cert root c) (\<lambda>ct.
     bind_err (augment_response_type c) (\<lambda>rt.
     bind_err (augment_assertion c) (\<lambda>a.
     bind_err (augment_hide_logs c) (\<lambda>hl.
     bind_err (augment_status_codes c) (\<lambda>sc.
       Inr \<lparr>base_url = b, path = p, url = u, http_method = m, data = raw_data c,
            files = fs, multipart = mp, timeout = t, headers = hs, verify = v, cert = ct,
            response_type = rt, assertion = a, hide_logs = hl, status_codes = sc\<rparr>))))))))))))"

section \<open>The SSH copy plugin\<close>

record CopyFilesSshCall =
  user :: string
  password :: string
  host :: string
  local_path :: "string option"
  remote_path :: "string option"
  download :: bool

text \<open>
  \<^verbatim>\<open>augment_copy_files_ssh_call\<close>: \<^verbatim>\<open>is_absolute\<close> is called on \<^verbatim>\<open>call['local_path']\<close>
  whether or not it is \<^verbatim>\<open>None\<close>; on \<^verbatim>\<open>None\<close> the attribute lookup raises
  \<^verbatim>\<open>AttributeError\<close>. Wrapping a string in \<^verbatim>\<open>Path\<close> leaves the model's path string
  as it is.
\<close>

definition augment_copy_files_ssh_call ::
  "CopyFilesSshCall \<Rightarrow> string \<Rightarrow> error + CopyFilesSshCall" where
  "augment_copy_files_ssh_call call root =
     (case local_path call of
        None \<Rightarrow> Inl (AttributeError ''is_absolute'')
      | Some lp \<Rightarrow>
          Inr (if \<not> is_absolute lp then call\<lparr>local_path := Some (joinpath root lp)\<rparr> else call))"

text \<open>
  What the plugin does to the outside, in order: log lines, the calls on the SSH client
  and its SFTP session, and the local \<^verbatim>\<open>mkdir\<close>. A call that raises is recorded as well.
\<close>

datatype ssh_event =
    InfoConnect string string
  | InfoCopy string string
  | DebugDownload string string
  | ErrorCopyDirectory
  | Connect string string string
  | OpenSftp
  | CloseSftp
  | Stat string
  | Mkdir string
  | Put string string
  | Get string string
  | ListdirAttr string
  | LocalMkdir string
  | ClientClose

text \<open>
  A remote directory listing, as \<^verbatim>\<open>sftp.listdir_attr\<close> returns it: entries with a file
  name and mode bits. An entry that is a directory carries the listing the server gives
  for it in turn, so the remote tree is finite; a listing may also fail.
\<close>

datatype rentry = REntry string nat rlisting
  and rlisting = ListingError error | Listing "rentry list"

text \<open>
  The SSH server, the SFTP session and the local file system, as parameters: \<open>None\<close> is
  a call that returns, \<open>Some err\<close> one that raises.
\<close>

record ssh_env =
  connect :: "string \<Rightarrow> string \<Rightarrow> string \<Rightarrow> error option"
  open_sftp :: "error option"
  sftp_stat :: "string \<Rightarrow> error + nat"
  sftp_mkdir :: "string \<Rightarrow> error option"
  sftp_put :: "string \<Rightarrow> string \<Rightarrow> error option"
  sftp_get :: "string \<Rightarrow> string \<Rightarrow> error option"
  sftp_listdir_attr :: "string \<Rightarrow> rlisting"
  is_dir :: "string \<Rightarrow> bool"
  local_mkdir :: "string \<Rightarrow> error option"

text \<open>\<^verbatim>\<open>stat.S_ISDIR\<close>: the file-type bits \<^verbatim>\<open>0o170000\<close> of the mode equal \<^verbatim>\<open>0o040000\<close>.\<close>

definition S_ISDIR :: "nat \<Rightarrow> bool" where
  "S_ISDIR m = ((m div 4096) mod 16 = 4)"

text \<open>
  \<^verbatim>\<open>run_with_ssh_client\<close>: the \<^verbatim>\<open>finally\<close> block closes the client after the
  \<^verbatim>\<open>try\<close> block, however that ends. The callable is any function from the effects so
  far to its outcome and the effects after it.
\<close>

definition run_with_ssh_client ::
  "ssh_env \<Rightarrow> string \<Rightarrow> string \<Rightarrow> string \<Rightarrow>
   (ssh_event list \<Rightarrow> (error + unit) \<times> ssh_event list) \<Rightarrow>
   ssh_event list \<Rightarrow> (error + unit) \<times> ssh_event list" where
  "run_with_ssh_client e usr hst pwd callable tr =
     (let tr1 = tr @ [InfoConnect usr hst, Connect hst usr pwd];
          (res, tr2) = (case connect e hst usr pwd of
                          Some err \<Rightarrow> (Inl err, tr1)
                        | None \<Rightarrow> callable tr1)
      in (res, tr2 @ [ClientClose]))"

text \<open>\<^verbatim>\<open>download_directory\<close> and its loop over the listing.\<close>

fun download_directory ::
  "ssh_env \<Rightarrow> string \<Rightarrow> string \<Rightarrow> rlisting \<Rightarrow> ssh_event list \<Rightarrow> (error + unit) \<times> ssh_event list"
and download_items ::
  "ssh_env \<Rightarrow> string \<Rightarrow> string \<Rightarrow> rentry list \<Rightarrow> ssh_event list \<Rightarrow> (error + unit) \<times> ssh_event list"
where
  "download_directory e rp lp (ListingError err) tr =
     (Inl err, tr @ [DebugDownload rp lp, ListdirAttr rp])"
| "download_directory e rp lp (Listing items) tr =
     download_items e rp lp items (tr @ [DebugDownload rp lp, ListdirAttr rp])"
| "download_items e rp lp [] tr = (Inr (), tr)"
| "download_items e rp lp (REntry filename st_mode sub # rest) tr =
     (let remote_item = joinpath rp filename; local_item = joinpath lp filename
      in if S_ISDIR st_mode then
           (case local_mkdir e local_item of
              Some err \<Rightarrow> (Inl err, tr @ [LocalMkdir local_item])
            | None \<Rightarrow>
                (case download_directory e remote_item local_item sub (tr @ [LocalMkdir local_item]) of
                   (Inl err, tr1) \<Rightarrow> (Inl err, tr1)
                 | (Inr u, tr1) \<Rightarrow> download_items e rp lp rest tr1))
         else
           (case sftp_get e remote_item local_item of
              Some err \<Rightarrow> (Inl err, tr @ [Get remote_item local_item])
            | None \<Rightarrow> download_items e rp lp rest (tr @ [Get remote_item local_item])))"

text \<open>
  The upload branch of \<^verbatim>\<open>copy_remote_file\<close>: the remote directory is created when
  \<^verbatim>\<open>stat\<close> raises \<^verbatim>\<open>FileNotFoundError\<close>; a local directory ends in \<^verbatim>\<open>assert False\<close>
  (\<^verbatim>\<open>upload_directory\<close> is not called), a file is \<^verbatim>\<open>put\<close>.
\<close>

definition upload_file ::
  "ssh_env \<Rightarrow> string \<Rightarrow> string \<Rightarrow> ssh_event list \<Rightarrow> (error + unit) \<times> ssh_event list" where
  "upload_file e lp rp tr =
     (let tr1 = tr @ [InfoCopy lp rp, Stat rp];
          (made, tr2) = (case sftp_stat e rp of
                           Inr st \<Rightarrow> (None, tr1)
                         | Inl FileNotFoundError \<Rightarrow> (sftp_mkdir e rp, tr1 @ [Mkdir rp])
                         | Inl err \<Rightarrow> (Some err, tr1))
      in case made of
           Some err \<Rightarrow> (Inl err, tr2)
         | None \<Rightarrow>
             if is_dir e lp then (Inl (AssertionError NoMessage), tr2 @ [ErrorCopyDirectory])
             else
               (let target = joinpath rp (path_name lp)
                in case sftp_put e lp target of
                     Some err \<Rightarrow> (Inl err, tr2 @ [Put lp target])
                   | None \<Rightarrow> (Inr (), tr2 @ [Put lp target])))"

text \<open>The download branch of \<^verbatim>\<open>copy_remote_file\<close>.\<close>

definition download_file ::
  "ssh_env \<Rightarrow> string \<Rightarrow> string \<Rightarrow> ssh_event list \<Rightarrow> (error + unit) \<times> ssh_event list" where
  "download_file e lp rp tr =
     (let tr1 = tr @ [InfoCopy rp lp, LocalMkdir lp]
      in case local_mkdir e lp of
           Some err \<Rightarrow> (Inl err, tr1)
         | None \<Rightarrow>
             (case sftp_stat e rp of
                Inl err \<Rightarrow> (Inl err, tr1 @ [Stat rp])
              | Inr st \<Rightarrow>
                  if S_ISDIR st then
                    download_directory e rp lp (sftp_listdir_attr e rp) (tr1 @ [Stat rp])
                  else
                    (let target = joinpath lp (path_name rp)
                     in case sftp_get e rp target of
                          Some err \<Rightarrow> (Inl err, tr1 @ [Stat rp, Get rp target])
                        | None \<Rightarrow> (Inr (), tr1 @ [Stat rp, Get rp target]))))"

text \<open>
  \<^verbatim>\<open>copy_remote_file\<close>: the SFTP session is a context manager, closed when the block is
  left. A path that is \<^verbatim>\<open>None\<close> raises \<^verbatim>\<open>AttributeError\<close> at its first
  \<^verbatim>\<open>as_posix()\<close>, in the log line.
\<close>

definition copy_remote_file ::
  "ssh_env \<Rightarrow> string option \<Rightarrow> string option \<Rightarrow> bool \<Rightarrow> ssh_event list \<Rightarrow>
   (error + unit) \<times> ssh_event list" where
  "copy_remote_file e lpo rpo dl tr =
     (case open_sftp e of
        Some err \<Rightarrow> (Inl err, tr @ [OpenSftp])
      | None \<Rightarrow>
          (let (res, tr1) =
                 (case (lpo, rpo) of
                    (Some lp, Some rp) \<Rightarrow>
                      if \<not> dl then upload_file e lp rp (tr @ [OpenSftp])
                      else download_file e lp rp (tr @ [OpenSftp])
                  | _ \<Rightarrow> (Inl (AttributeError ''as_posix''), tr @ [OpenSftp]))
           in (res, tr1 @ [CloseSftp])))"

definition make_copy_files_ssh_call ::
  "ssh_env \<Rightarrow> CopyFilesSshCall \<Rightarrow> (error + unit) \<times> ssh_event list" where
  "make_copy_files_ssh_call e call =
     run_with_ssh_client e (user call) (host call) (password call)
       (\<lambda>tr. copy_remote_file e (local_path call) (remote_path call) (download call) tr) []"

definition is_put :: "ssh_event \<Rightarrow> bool" where
  "is_put ev = (case ev of Put l r \<Rightarrow> True | _ \<Rightarrow> False)"

section \<open>Observations and example inputs\<close>

text \<open>
  \<open>responds e call r\<close>: the request of the call is built without an exception, handed to
  the transport, and the transport answers with the response \<open>r\<close>.
\<close>

definition responds :: "env \<Rightarrow> RestCall \<Rightarrow> http_response \<Rightarrow> bool" where
  "responds e call r =
     (case build_kwargs e call of
        (Inl err, call1) \<Rightarrow> False
      | (Inr kw, call1) \<Rightarrow> fst (dispatch e call1 kw []) = Inr r)"

text \<open>The call specification as execution leaves it, and the requests it sent.\<close>

definition executed :: "env \<Rightarrow> RestCall \<Rightarrow> RestCall" where
  "executed e call = fst (snd (make_rest_call e call))"

definition sent_requests :: "event list \<Rightarrow> http_request list" where
  "sent_requests tr = concat (map (\<lambda>ev. case ev of Sent rq \<Rightarrow> [rq] | _ \<Rightarrow> []) tr)"

text \<open>A declared key passes when the response has it with an equal value.\<close>

definition key_passes :: "(string \<times> pyval) list \<Rightarrow> string \<times> pyval \<Rightarrow> bool" where
  "key_passes response_json kv =
     (case map_of response_json (fst kv) of None \<Rightarrow> False | Some w \<Rightarrow> py_eq w (snd kv))"

text \<open>
  A transport that answers every request with the same response, next to library
  functions that return fixed values; the XML parser rejects its input, as
  \<^verbatim>\<open>parseString\<close> does on the \<^verbatim>\<open>str\<close> of a dictionary.
\<close>

definition stub_env :: "http_response \<Rightarrow> env" where
  "stub_env r =
     \<lparr>transport = (\<lambda>rq. Inr r), dumps = (\<lambda>v. ''json''), dumps_indent = (\<lambda>v. ''json''),
      py_str = (\<lambda>v. ''dict''), parseString = (\<lambda>s. Inl ExpatError), toprettyxml = (\<lambda>s. s),
      open_file = (\<lambda>p b. Inr 0)\<rparr>"

definition reply :: "int \<Rightarrow> string \<Rightarrow> pyval option \<Rightarrow> http_response" where
  "reply c t j = \<lparr>status_code = c, body_text = t, json_body = j\<rparr>"

text \<open>\<^verbatim>\<open>default_rest_call\<close>, before and after augmentation.\<close>

definition default_raw_rest_call :: raw_rest_call where
  "default_raw_rest_call =
     \<lparr>raw_base_url = PStr ''${REST_BASE_URL}'', raw_path = PStr ''${REST_PATH}'',
      raw_url = PNone, raw_method = PStr ''GET'', raw_data = PNone, raw_files = PNone,
      raw_multipart = PNone, raw_timeout = PInt 0, raw_headers = PDict [],
      raw_verify = PBool False, raw_cert = PNone, raw_response_type = PStr ''JSON'',
      raw_assertion = PNone, raw_hide_logs = PBool False,
      raw_status_codes = PList [PInt 200]\<rparr>"

definition default_rest_call :: RestCall where
  "default_rest_call =
     \<lparr>base_url = ''${REST_BASE_URL}'', path = ''${REST_PATH}'',
      url = ''${REST_BASE_URL}${REST_PATH}'', http_method = GET, data = PNone,
      files = None, multipart = None, timeout = 0, headers = [], verify = False,
      cert = None, response_type = JSON, assertion = None, hide_logs = False,
      status_codes = [200]\<rparr>"

text \<open>\<^verbatim>\<open>default_copy_files_ssh_call\<close>, and a server on which every call succeeds, every
  remote path is a regular file and every local path a directory.\<close>

definition default_copy_files_ssh_call :: CopyFilesSshCall where
  "default_copy_files_ssh_call =
     \<lparr>user = ''${REMOTE_CMD_USER}'', password = ''${REMOTE_CMD_PASSWORD}'',
      host = ''${REMOTE_CMD_HOST}'', local_path = None, remote_path = None,
      download = False\<rparr>"

definition stub_ssh_env :: ssh_env where
  "stub_ssh_env =
     \<lparr>connect = (\<lambda>h u p. None), open_sftp = None, sftp_stat = (\<lambda>p. Inr 33188),
      sftp_mkdir = (\<lambda>p. None), sftp_put = (\<lambda>l r. None), sftp_get = (\<lambda>r l. None),
      sftp_listdir_attr = (\<lambda>p. Listing []), is_dir = (\<lambda>p. True),
      local_mkdir = (\<lambda>p. None)\<rparr>"

text \<open>
  Example calls: the default call with one multipart field and a \<^verbatim>\<open>Content-Type\<close>
  header; with a subset assertion \<^verbatim>\<open>{"a": 1}\<close>; with a full assertion \<^verbatim>\<open>{"a": 1}\<close>;
  with one loaded file and the default (empty) headers; the raw default call with a list as
  assertion value, and the call it would augment to; and an upload of a local directory.
\<close>

definition multipart_call :: RestCall where
  "multipart_call =
     default_rest_call
       \<lparr>multipart := Some [(''meta'', EmptyFile ''{}'' ''application/json'')],
        headers := [(''Content-Type'', PStr ''application/json'')]\<rparr>"

definition only_defined_call :: RestCall where
  "only_defined_call =
     default_rest_call
       \<lparr>assertion := Some [(''value'', PDict [(''a'', PInt 1)]), (''only_defined'', PBool True)]\<rparr>"

definition full_mapping_call :: RestCall where
  "full_mapping_call =
     default_rest_call
       \<lparr>assertion := Some [(''value'', PDict [(''a'', PInt 1)]), (''only_defined'', PBool False)]\<rparr>"

definition attachment_call :: RestCall where
  "attachment_call =
     default_rest_call
       \<lparr>files := Some [(''upload'', LoadedFile ''a.txt'' 0 (PStr ''text/plain''))]\<rparr>"

definition list_assertion_raw_call :: raw_rest_call where
  "list_assertion_raw_call =
     default_raw_rest_call\<lparr>raw_assertion := PDict [(''value'', PList [PInt 1, PInt 2])]\<rparr>"

definition list_assertion_call :: RestCall where
  "list_assertion_call =
     default_rest_call
       \<lparr>assertion :=
          Some [(''value'', PList [PInt 1, PInt 2]), (''only_defined'', PBool False)]\<rparr>"

definition directory_upload_call :: CopyFilesSshCall where
  "directory_upload_call =
     default_copy_files_ssh_call
       \<lparr>local_path := Some ''/project/dir'', remote_path := Some ''/srv''\<rparr>"

section \<open>The SSH copy plugin: properties\<close>

text \<open>
  Claim C7. The SSH session opened by \<^verbatim>\<open>run_with_ssh_client\<close> is closed before control
  returns to the caller on every exit path: whatever the server answers to the connect
  and whatever the callable does (return or raise), the last effect of
  \<^verbatim>\<open>run_with_ssh_client\<close>, and so of \<^verbatim>\<open>make_copy_files_ssh_call\<close>, is the close of the
  client; the outcome handed to the caller is the connect's exception or the callable's
  own outcome.
\<close>

theorem run_with_ssh_client_always_closes:
  "(\<exists>evs. snd (run_with_ssh_client e usr hst pwd callable tr) = evs @ [ClientClose]) \<and>
   (\<exists>evs. snd (make_copy_files_ssh_call e call) = evs @ [ClientClose]) \<and>
   fst (run_with_ssh_client e usr hst pwd callable tr) =
     (case connect e hst usr pwd of
        Some err \<Rightarrow> Inl err
      | None \<Rightarrow> fst (callable (tr @ [InfoConnect usr hst, Connect hst usr pwd])))"
  by (simp add: run_with_ssh_client_def make_copy_files_ssh_call_def Let_def
      split: option.splits prod.splits)

text \<open>With a local directory the upload branch raises, and adds no \<open>Put\<close>.\<close>

lemma upload_file_directory:
  assumes "is_dir e lp"
  shows "\<exists>err. fst (upload_file e lp rp tr) = Inl err"
    and "filter is_put (snd (upload_file e lp rp tr)) = filter is_put tr"
  using assms
  by (auto simp: upload_file_def Let_def is_put_def
      split: sum.splits error.splits option.splits prod.splits)

text \<open>
  Claim C8. For every \<^verbatim>\<open>CopyFilesSshCall\<close> with \<^verbatim>\<open>download=false\<close> whose local path is
  a directory, execution raises an error and no file is ever \<^verbatim>\<open>put\<close> to the remote host
  (the remote target directory may have been probed and created before the failure).
\<close>

theorem upload_of_directory_raises_without_put:
  assumes "\<not> download call" and "local_path call = Some lp" and "is_dir e lp"
  shows "(\<exists>err. fst (make_copy_files_ssh_call e call) = Inl err) \<and>
         filter is_put (snd (make_copy_files_ssh_call e call)) = []"
proof (cases "connect e (host call) (user call) (password call)")
  case (Some err)
  then show ?thesis
    by (simp add: make_copy_files_ssh_call_def run_with_ssh_client_def is_put_def)
next
  case None
  note conn = this
  show ?thesis
  proof (cases "open_sftp e")
    case (Some err)
    then show ?thesis using conn
      by (simp add: make_copy_files_ssh_call_def run_with_ssh_client_def
          copy_remote_file_def is_put_def)
  next
    case None
    note sftp = this
    show ?thesis
    proof (cases "remote_path call")
      case None
      then show ?thesis using conn sftp assms
        by (simp add: make_copy_files_ssh_call_def run_with_ssh_client_def
            copy_remote_file_def is_put_def)
    next
      case (Some rp)
      define tr0 where "tr0 = [InfoConnect (user call) (host call),
        Connect (host call) (user call) (password call), OpenSftp]"
      obtain res tr1 where u: "upload_file e lp rp tr0 = (res, tr1)"
        by (cases "upload_file e lp rp tr0") auto
      from upload_file_directory(1) [OF assms(3), of rp tr0] u
      obtain err where r: "res = Inl err" by auto
      from upload_file_directory(2) [OF assms(3), of rp tr0] u
      have f: "filter is_put tr1 = []" by (simp add: is_put_def tr0_def)
      show ?thesis using conn sftp assms Some u r f
        by (simp add: make_copy_files_ssh_call_def run_with_ssh_client_def
            copy_remote_file_def is_put_def tr0_def)
    qed
  qed
qed

theorem upload_of_directory_raises_without_put_witness:
  "\<not> download directory_upload_call \<and>
   local_path directory_upload_call = Some ''/project/dir'' \<and>
   is_dir stub_ssh_env ''/project/dir'' \<and>
   fst (make_copy_files_ssh_call stub_ssh_env directory_upload_call)
     = Inl (AssertionError NoMessage) \<and>
   filter is_put (snd (make_copy_files_ssh_call stub_ssh_env directory_upload_call)) = []"
  using upload_of_directory_raises_without_put
    [of directory_upload_call "''/project/dir''" stub_ssh_env]
  by (simp add: directory_upload_call_def default_copy_files_ssh_call_def stub_ssh_env_def
      make_copy_files_ssh_call_def run_with_ssh_client_def copy_remote_file_def
      upload_file_def is_put_def)

text \<open>
  Claim C10. For every \<^verbatim>\<open>CopyFilesSshCall\<close> whose \<^verbatim>\<open>local_path\<close> is \<^verbatim>\<open>None\<close> (the value
  of the default template), \<^verbatim>\<open>augment_copy_files_ssh_call\<close> raises before completing: the
  exception is the \<^verbatim>\<open>AttributeError\<close> of calling \<^verbatim>\<open>is_absolute\<close> on \<^verbatim>\<open>None\<close>, not a
  validation error, and no augmented call comes out.
\<close>

theorem augment_copy_files_ssh_call_absent_local_path:
  "local_path call = None \<Longrightarrow>
   augment_copy_files_ssh_call call root = Inl (AttributeError ''is_absolute'')"
  by (simp add: augment_copy_files_ssh_call_def)

theorem augment_copy_files_ssh_call_absent_local_path_witness:
  "local_path default_copy_files_ssh_call = None \<and>
   augment_copy_files_ssh_call default_copy_files_ssh_call ''/project''
     = Inl (AttributeError ''is_absolute'')"
  using augment_copy_files_ssh_call_absent_local_path
    [of default_copy_files_ssh_call "''/project''"]
  by (simp add: default_copy_files_ssh_call_def)

section \<open>The REST plugin: what execution leaves of the call\<close>

lemma delete_absent: "map_of al k = None \<Longrightarrow> AList.delete k al = al"
  by (induction al) (auto split: if_splits)

lemma add_multipart_frame: "add_multipart call\<lparr>files := files call\<rparr> = call"
  by (simp add: add_multipart_def Let_def split: option.splits)

lemma add_multipart_without_multipart:
  "\<not> dict_truthy (multipart call) \<Longrightarrow> add_multipart call = call"
  by (simp add: add_multipart_def)

lemma headers_add_multipart: "headers (add_multipart call) = headers call"
  by (simp add: add_multipart_def Let_def split: option.splits)

lemma timeout_add_multipart: "timeout (add_multipart call) = timeout call"
  by (simp add: add_multipart_def Let_def split: option.splits)

lemma build_kwargs_call:
  "snd (build_kwargs e call) =
     (if dict_truthy (files (add_multipart call))
      then (add_multipart call)\<lparr>headers := AList.delete ''Content-Type'' (headers call)\<rparr>
      else add_multipart call)"
  by (simp add: build_kwargs_def Let_def delete_absent headers_add_multipart)

lemma build_kwargs_fields:
  "assertion (snd (build_kwargs e call)) = assertion call"
  "status_codes (snd (build_kwargs e call)) = status_codes call"
  "response_type (snd (build_kwargs e call)) = response_type call"
  by (simp_all add: build_kwargs_call add_multipart_def Let_def split: option.splits)

lemma assert_response_call: "fst (snd (assert_response e call)) = snd (build_kwargs e call)"
  by (simp add: assert_response_def Let_def split: prod.splits sum.splits)

lemma make_rest_call_call:
  "fst (snd (make_rest_call e call)) = fst (snd (assert_response e call))"
  by (simp add: make_rest_call_def
      split: prod.splits sum.splits error.splits option.splits Type.splits)

lemma executed_eq:
  "executed e call =
     (if dict_truthy (files (add_multipart call))
      then (add_multipart call)\<lparr>headers := AList.delete ''Content-Type'' (headers call)\<rparr>
      else add_multipart call)"
  by (simp add: executed_def make_rest_call_call assert_response_call build_kwargs_call)

lemmas exec_defs = make_rest_call_def assert_response_def build_kwargs_def add_multipart_def
  dict_truthy_def dispatch_def call_verb_def compare_response_def assert_json_equals_def
  log_response_def stub_env_def reply_def default_rest_call_def Let_def

text \<open>
  Claim C9, as the code has it. Execution changes at most the \<^verbatim>\<open>files\<close> and \<^verbatim>\<open>headers\<close>
  fields of an augmented call: \<^verbatim>\<open>multipart\<close> and every other field are the same after
  execution; \<^verbatim>\<open>files\<close> is \<^verbatim>\<open>files\<close> with the multipart entries merged in, and unchanged
  when \<^verbatim>\<open>multipart\<close> is absent or empty; \<^verbatim>\<open>headers\<close> is unchanged when no attachment is
  present after the merge, and otherwise is \<^verbatim>\<open>headers\<close> without its \<^verbatim>\<open>Content-Type\<close>
  entry.
\<close>

theorem execution_changes_only_files_and_headers:
  "(executed e call)\<lparr>files := files call, headers := headers call\<rparr> = call \<and>
   multipart (executed e call) = multipart call \<and>
   files (executed e call) = files (add_multipart call) \<and>
   (\<not> dict_truthy (multipart call) \<longrightarrow> files (executed e call) = files call) \<and>
   (\<not> dict_truthy (files (executed e call)) \<longrightarrow> headers (executed e call) = headers call) \<and>
   (dict_truthy (files (executed e call)) \<longrightarrow>
      headers (executed e call) = AList.delete ''Content-Type'' (headers call))"
proof -
  have frame: "add_multipart call\<lparr>files := files call\<rparr> = call"
    by (rule add_multipart_frame)
  have m: "multipart (add_multipart call) = multipart call"
    by (simp add: add_multipart_def Let_def split: option.splits)
  have h: "headers (add_multipart call) = headers call"
    by (rule headers_add_multipart)
  show ?thesis
  proof (cases "dict_truthy (files (add_multipart call))")
    case True
    then show ?thesis using frame m h
      by (simp add: executed_eq add_multipart_without_multipart)
  next
    case False
    then show ?thesis using frame m h
      by (simp add: executed_eq add_multipart_without_multipart)
  qed
qed

theorem execution_changes_only_files_and_headers_witness:
  "dict_truthy (multipart multipart_call) \<and>
   dict_truthy (files (executed (stub_env (reply 200 [] None)) multipart_call)) \<and>
   multipart (executed (stub_env (reply 200 [] None)) multipart_call)
     = multipart multipart_call \<and>
   headers (executed (stub_env (reply 200 [] None)) multipart_call) = [] \<and>
   \<not> dict_truthy (multipart default_rest_call) \<and>
   \<not> dict_truthy (files (executed (stub_env (reply 200 [] None)) default_rest_call)) \<and>
   executed (stub_env (reply 200 [] None)) default_rest_call = default_rest_call"
  using execution_changes_only_files_and_headers
      [where e = "stub_env (reply 200 [] None)" and call = multipart_call]
    execution_changes_only_files_and_headers
      [where e = "stub_env (reply 200 [] None)" and call = default_rest_call]
  by (simp add: executed_def multipart_call_def exec_defs)

text \<open>
  The claim as the specification states it fails: the call with one multipart field and a
  \<^verbatim>\<open>Content-Type\<close> header passes, and afterwards its \<^verbatim>\<open>files\<close> and its \<^verbatim>\<open>headers\<close> are
  not what they were when augmentation completed.
\<close>

theorem execution_changes_files_and_headers:
  "fst (make_rest_call (stub_env (reply 200 [] None)) multipart_call) = Inr () \<and>
   files (executed (stub_env (reply 200 [] None)) multipart_call) \<noteq> files multipart_call \<and>
   headers (executed (stub_env (reply 200 [] None)) multipart_call) \<noteq> headers multipart_call"
  by (simp add: executed_def multipart_call_def exec_defs)

section \<open>The REST plugin: the request\<close>

lemma sent_requests_append [simp]:
  "sent_requests (xs @ ys) = sent_requests xs @ sent_requests ys"
  by (simp add: sent_requests_def)

lemma sent_requests_simps [simp]:
  "sent_requests [] = []"
  "sent_requests (LogInfo m # tr) = sent_requests tr"
  "sent_requests (LogError m # tr) = sent_requests tr"
  "sent_requests (Sent rq # tr) = rq # sent_requests tr"
  by (simp_all add: sent_requests_def)

lemma sent_requests_compare_response [simp]:
  "sent_requests (snd (compare_response c r)) = []"
  by (simp add: compare_response_def split: option.splits pyval.splits)

lemma sent_requests_log_response [simp]:
  "sent_requests (log_response r # tr) = sent_requests tr"
  by (simp add: log_response_def split: option.splits)

text \<open>At most one request leaves, the one built from the keyword dictionary, and only
  when that dictionary has no \<^verbatim>\<open>timeout\<close> key.\<close>

lemma sent_requests_assert_response:
  assumes "build_kwargs e call = (Inr kw, call1)"
  shows "sent_requests (snd (snd (assert_response e call))) =
     (if kw_timeout kw = None then
        [\<lparr>rq_method = http_method call1, rq_url = url call1, rq_timeout = 10,
          rq_headers = kw_headers kw, rq_files = kw_files kw, rq_data = kw_data kw,
          rq_verify = kw_verify kw\<rparr>]
      else [])"
proof (cases "kw_timeout kw")
  case (Some t)
  then show ?thesis using assms
    by (simp add: assert_response_def dispatch_def call_verb_def split: Method.splits)
next
  case None
  then show ?thesis using assms
    by (cases "http_method call1")
      (simp_all add: assert_response_def dispatch_def call_verb_def Let_def split_beta
        split: sum.splits)
qed

text \<open>A request that does leave with attachments carries no \<^verbatim>\<open>Content-Type\<close> header.\<close>

lemma sent_with_attachments_has_no_content_type:
  assumes "rq \<in> set (sent_requests (snd (snd (assert_response e call))))"
    and "dict_truthy (rq_files rq)"
  shows "map_of (rq_headers rq) ''Content-Type'' = None"
proof -
  obtain res call1 where b: "build_kwargs e call = (res, call1)"
    by (cases "build_kwargs e call") auto
  show ?thesis
  proof (cases res)
    case (Inl err)
    then show ?thesis using assms b by (simp add: assert_response_def)
  next
    case (Inr kw)
    have kw: "dict_truthy (kw_files kw) \<Longrightarrow> map_of (kw_headers kw) ''Content-Type'' = None"
      using b Inr
      by (auto simp: build_kwargs_def Let_def delete_conv' dict_truthy_def split: if_splits)
    have "rq_files rq = kw_files kw \<and> rq_headers rq = kw_headers kw"
      using assms(1) b Inr sent_requests_assert_response [of e call kw call1]
      by (auto split: if_splits)
    then show ?thesis using kw assms(2) by simp
  qed
qed

text \<open>
  Claim C4, at the default headers. The call has one loaded file and the empty headers
  mapping of the default template: \<^verbatim>\<open>del data["headers"]["Content-Type"]\<close> raises
  \<^verbatim>\<open>KeyError\<close>, execution ends there, and no request is sent, with or without a
  \<^verbatim>\<open>Content-Type\<close> header.
\<close>

theorem attachment_without_content_type_raises_key_error:
  "assert_response (stub_env (reply 200 [] None)) attachment_call
     = (Inl (KeyError ''Content-Type''), attachment_call, []) \<and>
   fst (make_rest_call (stub_env (reply 200 [] None)) attachment_call)
     = Inl (KeyError ''Content-Type'')"
  by (simp add: attachment_call_def exec_defs)

text \<open>A timeout other than 0 never reaches the transport: every such call raises and
  sends nothing.\<close>

lemma nonzero_timeout_never_dispatched:
  assumes "timeout call \<noteq> 0"
  shows "(\<exists>err. fst (assert_response e call) = Inl err) \<and>
         sent_requests (snd (snd (assert_response e call))) = []"
  using assms timeout_add_multipart [of call]
  by (simp add: assert_response_def build_kwargs_def dispatch_def call_verb_def Let_def
      split: Method.splits)

text \<open>
  Claim C2, at timeout 5. The default call with \<^verbatim>\<open>timeout\<close> 5 puts the value into the
  keyword dictionary, and \<^verbatim>\<open>get(url, timeout=10, **data)\<close> then has two values for the
  keyword \<^verbatim>\<open>timeout\<close>: execution raises \<^verbatim>\<open>TypeError\<close> after the log line, and no
  request is sent.
\<close>

theorem positive_timeout_raises_type_error:
  "make_rest_call (stub_env (reply 200 [] None)) (default_rest_call\<lparr>timeout := 5\<rparr>)
     = (Inl (TypeError ''multiple values for keyword argument timeout''),
        default_rest_call\<lparr>timeout := 5\<rparr>,
        [LogInfo (MakeCall GET ''${REST_BASE_URL}${REST_PATH}'')])"
  by (simp add: exec_defs)

section \<open>The REST plugin: the assertion failure in \<^verbatim>\<open>make_rest_call\<close>\<close>

text \<open>With no assertion configured, no assertion failure ever leaves
  \<^verbatim>\<open>make_rest_call\<close>.\<close>

lemma make_rest_call_without_assertion_never_raises_assertion:
  assumes "assertion call = None"
  shows "fst (make_rest_call e call) \<noteq> Inl (AssertionError m)"
proof -
  obtain res c1 tr where ar: "assert_response e call = (res, c1, tr)"
    by (cases "assert_response e call") auto
  have "c1 = snd (build_kwargs e call)"
    using assert_response_call [of e call] ar by simp
  then have "assertion c1 = None"
    using assms by (simp add: build_kwargs_fields)
  then show ?thesis using ar
    by (auto simp: make_rest_call_def split: sum.splits error.splits)
qed

text \<open>With response type XML, an exception of the XML parser on the rendered assertion
  leaves the handler in place of the assertion failure.\<close>

lemma make_rest_call_xml_handler_raises_parse_error:
  assumes "fst (assert_response e call) = Inl (AssertionError m)"
    and "assertion call = Some a" and "response_type call = XML"
    and "parseString e (py_str e (PDict a)) = Inl err"
  shows "fst (make_rest_call e call) = Inl err"
proof -
  obtain res c1 tr where ar: "assert_response e call = (res, c1, tr)"
    by (cases "assert_response e call") auto
  have "c1 = snd (build_kwargs e call)"
    using assert_response_call [of e call] ar by simp
  then have "assertion c1 = Some a" "response_type c1 = XML"
    using assms by (simp_all add: build_kwargs_fields)
  then show ?thesis using ar assms(1,4)
    by (simp add: make_rest_call_def pretty_xml_def)
qed

text \<open>With an assertion and a response type other than XML, \<^verbatim>\<open>make_rest_call\<close> hands on
  the outcome of \<^verbatim>\<open>assert_response\<close>.\<close>

lemma make_rest_call_not_xml:
  assumes "response_type call \<noteq> XML" and "assertion call \<noteq> None"
  shows "fst (make_rest_call e call) = fst (assert_response e call)"
proof -
  obtain res c1 tr where ar: "assert_response e call = (res, c1, tr)"
    by (cases "assert_response e call") auto
  have "c1 = snd (build_kwargs e call)"
    using assert_response_call [of e call] ar by simp
  then have f: "assertion c1 = assertion call" "response_type c1 = response_type call"
    by (simp_all add: build_kwargs_fields)
  show ?thesis using assms f ar
    by (auto simp: make_rest_call_def split: sum.splits error.splits option.splits Type.splits)
qed

text \<open>
  Claim C1, with no assertion configured. The default call (no assertion, accepted status
  200) meets a server that answers 500: \<^verbatim>\<open>assert_response\<close> raises the assertion failure
  of the status check, and \<^verbatim>\<open>make_rest_call\<close> returns normally, so the failure does not
  reach the caller.
\<close>

theorem make_rest_call_swallows_status_failure:
  "fst (assert_response (stub_env (reply 500 [] None)) default_rest_call)
     = Inl (AssertionError NoMessage) \<and>
   fst (make_rest_call (stub_env (reply 500 [] None)) default_rest_call) = Inr ()"
  by (simp add: exec_defs)

section \<open>The REST plugin: comparing the response\<close>

lemma dispatch_fst: "fst (dispatch e c kw tr) = fst (dispatch e c kw [])"
  by (simp add: dispatch_def call_verb_def Let_def split: Method.splits option.splits)

lemma compare_response_cong:
  "assertion c1 = assertion c2 \<Longrightarrow> compare_response c1 r = compare_response c2 r"
  by (simp add: compare_response_def)

text \<open>Once the transport has answered, the outcome is the status check followed by the
  comparison.\<close>

lemma assert_response_responds:
  assumes "responds e call r"
  shows "fst (assert_response e call) =
     (if status_code r \<in> set (status_codes call) then fst (compare_response call r)
      else Inl (AssertionError NoMessage))"
proof -
  obtain kw call1 where b: "build_kwargs e call = (Inr kw, call1)"
    using assms by (auto simp: responds_def split: prod.splits sum.splits)
  have c1: "call1 = snd (build_kwargs e call)" using b by simp
  have d0: "fst (dispatch e call1 kw []) = Inr r"
    using assms b by (simp add: responds_def)
  obtain tr where
    d: "dispatch e call1 kw [LogInfo (MakeCall (http_method call1) (url call1))] = (Inr r, tr)"
    using d0 dispatch_fst [of e call1 kw "[LogInfo (MakeCall (http_method call1) (url call1))]"]
    by (cases "dispatch e call1 kw [LogInfo (MakeCall (http_method call1) (url call1))]") auto
  have cmp: "compare_response call1 r = compare_response call r"
    by (rule compare_response_cong) (simp add: c1 build_kwargs_fields)
  have sc: "status_codes call1 = status_codes call"
    by (simp add: c1 build_kwargs_fields)
  show ?thesis
    by (simp add: assert_response_def b d Let_def cmp sc split: prod.splits)
qed

lemma check_defined_pass:
  "(check_defined expected response_json = Inr ())
     = list_all (key_passes response_json) expected"
  by (induction expected) (auto simp: key_passes_def split: option.splits if_splits)

text \<open>When some declared key does not pass, the loop ends at the first such key, with
  the message that names it.\<close>

lemma check_defined_fail:
  "\<not> list_all (key_passes response_json) expected \<Longrightarrow>
   \<exists>pre key v post. expected = pre @ (key, v) # post \<and>
      list_all (key_passes response_json) pre \<and> \<not> key_passes response_json (key, v) \<and>
      check_defined expected response_json =
        Inl (AssertionError (case map_of response_json key of
                               None \<Rightarrow> KeyNotFound key
                             | Some w \<Rightarrow> KeyNotEqual key v w))"
proof (induction expected)
  case Nil
  then show ?case by simp
next
  case (Cons kv rest)
  obtain k v where kv: "kv = (k, v)" by (cases kv)
  show ?case
  proof (cases "key_passes response_json kv")
    case False
    have "check_defined (kv # rest) response_json =
        Inl (AssertionError (case map_of response_json k of
                               None \<Rightarrow> KeyNotFound k
                             | Some w \<Rightarrow> KeyNotEqual k v w))"
      using False by (simp add: kv key_passes_def split: option.splits)
    then have "kv # rest = [] @ (k, v) # rest \<and>
      list_all (key_passes response_json) [] \<and> \<not> key_passes response_json (k, v) \<and>
      check_defined (kv # rest) response_json =
        Inl (AssertionError (case map_of response_json k of
                               None \<Rightarrow> KeyNotFound k
                             | Some w \<Rightarrow> KeyNotEqual k v w))"
      using False kv by simp
    then show ?thesis by blast
  next
    case True
    then have "\<not> list_all (key_passes response_json) rest"
      using Cons.prems by simp
    from Cons.IH [OF this] obtain pre key v' post where
      IH: "rest = pre @ (key, v') # post" "list_all (key_passes response_json) pre"
          "\<not> key_passes response_json (key, v')"
          "check_defined rest response_json =
             Inl (AssertionError (case map_of response_json key of
                                    None \<Rightarrow> KeyNotFound key
                                  | Some w \<Rightarrow> KeyNotEqual key v' w))"
      by blast
    have step: "check_defined (kv # rest) response_json = check_defined rest response_json"
      using True by (simp add: kv key_passes_def split: option.splits)
    have "kv # rest = (kv # pre) @ (key, v') # post \<and>
      list_all (key_passes response_json) (kv # pre) \<and>
      \<not> key_passes response_json (key, v') \<and>
      check_defined (kv # rest) response_json =
        Inl (AssertionError (case map_of response_json key of
                               None \<Rightarrow> KeyNotFound key
                             | Some w \<Rightarrow> KeyNotEqual key v' w))"
      using IH True step by simp
    then show ?thesis by blast
  qed
qed

text \<open>
  Claim C6. For a call whose assertion value is a mapping with \<^verbatim>\<open>only_defined\<close> true,
  answered with an accepted status and a JSON object, execution checks exactly the
  declared keys: it passes if and only if every declared key is in the response with an
  equal value (keys of the response that are not declared play no part); otherwise it
  raises the assertion failure of the first declared key that does not pass, naming that
  key: ``not found'' when the response lacks it, ``not equal'' with both values when the
  value differs. With a response type other than XML, \<^verbatim>\<open>make_rest_call\<close> hands the same
  outcome to its caller.
\<close>

theorem only_defined_checks_declared_keys:
  assumes "responds e call r"
    and "status_code r \<in> set (status_codes call)"
    and "assertion call = Some a"
    and "map_of a ''value'' = Some (PDict expected)"
    and "map_of a ''only_defined'' = Some (PBool True)"
    and "json_body r = Some (PDict response_json)"
  shows "((fst (assert_response e call) = Inr ())
            = list_all (key_passes response_json) expected) \<and>
    (\<not> list_all (key_passes response_json) expected \<longrightarrow>
      (\<exists>pre key v post. expected = pre @ (key, v) # post \<and>
        list_all (key_passes response_json) pre \<and> \<not> key_passes response_json (key, v) \<and>
        fst (assert_response e call) =
          Inl (AssertionError (case map_of response_json key of
                                 None \<Rightarrow> KeyNotFound key
                               | Some w \<Rightarrow> KeyNotEqual key v w)))) \<and>
    (response_type call \<noteq> XML \<longrightarrow>
       fst (make_rest_call e call) = fst (assert_response e call))"
proof -
  have cmp: "fst (compare_response call r) = check_defined expected response_json"
    using assms(3-6) by (simp add: compare_response_def)
  have ar: "fst (assert_response e call) = check_defined expected response_json"
    using assert_response_responds [OF assms(1)] assms(2) cmp by simp
  have m: "response_type call \<noteq> XML \<longrightarrow>
      fst (make_rest_call e call) = fst (assert_response e call)"
    using make_rest_call_not_xml [of call e] assms(3) by simp
  show ?thesis
    using ar check_defined_pass [of expected response_json]
      check_defined_fail [of response_json expected] m
    by simp
qed

theorem only_defined_checks_declared_keys_witness:
  "responds (stub_env (reply 200 [] (Some (PDict [(''a'', PInt 1), (''b'', PInt 2)]))))
     only_defined_call (reply 200 [] (Some (PDict [(''a'', PInt 1), (''b'', PInt 2)]))) \<and>
   status_code (reply 200 [] (Some (PDict [(''a'', PInt 1), (''b'', PInt 2)])))
     \<in> set (status_codes only_defined_call) \<and>
   assertion only_defined_call
     = Some [(''value'', PDict [(''a'', PInt 1)]), (''only_defined'', PBool True)] \<and>
   list_all (key_passes [(''a'', PInt 1), (''b'', PInt 2)]) [(''a'', PInt 1)] \<and>
   response_type only_defined_call \<noteq> XML \<and>
   fst (assert_response
          (stub_env (reply 200 [] (Some (PDict [(''a'', PInt 1), (''b'', PInt 2)]))))
          only_defined_call) = Inr () \<and>
   fst (make_rest_call
          (stub_env (reply 200 [] (Some (PDict [(''a'', PInt 1), (''b'', PInt 2)]))))
          only_defined_call) = Inr ()"
  using only_defined_checks_declared_keys
    [where e = "stub_env (reply 200 [] (Some (PDict [(''a'', PInt 1), (''b'', PInt 2)])))"
      and call = only_defined_call
      and r = "reply 200 [] (Some (PDict [(''a'', PInt 1), (''b'', PInt 2)]))"
      and a = "[(''value'', PDict [(''a'', PInt 1)]), (''only_defined'', PBool True)]"
      and expected = "[(''a'', PInt 1)]"
      and response_json = "[(''a'', PInt 1), (''b'', PInt 2)]"]
  by (simp add: only_defined_call_def responds_def key_passes_def exec_defs)

text \<open>With \<^verbatim>\<open>only_defined\<close> false the response is compared with the whole assertion
  dictionary: the call passes exactly when the body equals \<^verbatim>\<open>call["assertion"]\<close>.\<close>

lemma full_mapping_compares_whole_assertion:
  assumes "responds e call r"
    and "status_code r \<in> set (status_codes call)"
    and "assertion call = Some a"
    and "map_of a ''value'' = Some (PDict expected)"
    and "map_of a ''only_defined'' = Some (PBool False)"
    and "json_body r = Some j"
  shows "(fst (assert_response e call) = Inr ()) = py_eq j (PDict a)"
proof -
  have "fst (compare_response call r) = assert_json_equals r a"
    using assms(3-5) by (simp add: compare_response_def)
  then show ?thesis
    using assert_response_responds [OF assms(1)] assms(2,6)
    by (simp add: assert_json_equals_def)
qed

text \<open>
  Claim C3, at equal bodies. The expected mapping is \<^verbatim>\<open>{"a": 1}\<close> with \<^verbatim>\<open>only_defined\<close>
  false, and the server answers 200 with the JSON body \<^verbatim>\<open>{"a": 1}\<close>: the body equals the
  expected mapping, and execution raises the assertion failure all the same, in
  \<^verbatim>\<open>assert_response\<close> and in \<^verbatim>\<open>make_rest_call\<close>.
\<close>

theorem full_mapping_equal_body_fails:
  "py_eq (PDict [(''a'', PInt 1)]) (PDict [(''a'', PInt 1)]) \<and>
   fst (assert_response
          (stub_env (reply 200 ''{a: 1}'' (Some (PDict [(''a'', PInt 1)]))))
          full_mapping_call) = Inl (AssertionError NoMessage) \<and>
   fst (make_rest_call
          (stub_env (reply 200 ''{a: 1}'' (Some (PDict [(''a'', PInt 1)]))))
          full_mapping_call) = Inl (AssertionError NoMessage)"
  by (simp add: full_mapping_call_def exec_defs pretty_json_def)

section \<open>The REST plugin: augmentation of the assertion\<close>

lemma augment_assertion_list:
  assumes "raw_assertion c = PDict a" and "map_of a ''value'' = Some (PList xs)"
  shows "augment_assertion c = Inl (ValueError ''Only defined must be a boolean.'') \<or>
         augment_assertion c = Inl (ValueError ''Assertion must be a string or a dict.'')"
proof (cases "default_only_defined a")
  case (Inl err)
  then have "err = ValueError ''Only defined must be a boolean.''"
    by (auto simp: default_only_defined_def split: option.splits pyval.splits)
  then show ?thesis using Inl assms(1)
    by (simp add: augment_assertion_def bind_err_def)
next
  case (Inr a1)
  then have "map_of a1 ''value'' = Some (PList xs)"
    using assms(2)
    by (auto simp: default_only_defined_def update_conv' split: option.splits pyval.splits)
  then have "check_assertion_value a1
      = Inl (ValueError ''Assertion must be a string or a dict.'')"
    by (simp add: check_assertion_value_def)
  then show ?thesis using Inr assms(1)
    by (simp add: augment_assertion_def bind_err_def)
qed

lemma augment_rest_call_assertion_error:
  assumes "augment_assertion c = Inl err0"
  shows "\<exists>err. augment_rest_call e c root = Inl err"
  using assms
  by (simp add: augment_rest_call_def bind_err_def split: sum.splits prod.splits)

lemmas augment_defs = augment_rest_call_def bind_err_def augment_url_def augment_method_def
  augment_files_def augment_multipart_def augment_timeout_def augment_headers_def
  augment_verify_def augment_cert_def augment_response_type_def augment_assertion_def
  default_only_defined_def check_assertion_value_def augment_hide_logs_def
  augment_status_codes_def default_raw_rest_call_def

text \<open>For every call whose assertion value is a list, the assertion section of the
  augmentation raises \<^verbatim>\<open>ValueError\<close>, and so \<^verbatim>\<open>augment_rest_call\<close> raises: no augmented
  call comes out.\<close>

lemma augment_rest_call_list_value_raises:
  assumes "raw_assertion c = PDict a" and "map_of a ''value'' = Some (PList xs)"
  shows "(\<exists>err. augment_rest_call e c root = Inl err) \<and>
    (augment_assertion c = Inl (ValueError ''Only defined must be a boolean.'') \<or>
     augment_assertion c = Inl (ValueError ''Assertion must be a string or a dict.''))"
  using augment_assertion_list [OF assms] augment_rest_call_assertion_error [of c _ e root]
  by blast

text \<open>The list branch of \<^verbatim>\<open>assert_response\<close>, on a call as augmentation would hand it
  on if it let the list through: the response body \<^verbatim>\<open>[1, 2]\<close> equals the expected
  sequence, and the comparison with the whole assertion dictionary fails.\<close>

lemma list_value_equal_body_fails:
  "py_eq (PList [PInt 1, PInt 2]) (PList [PInt 1, PInt 2]) \<and>
   fst (assert_response
          (stub_env (reply 200 ''[1, 2]'' (Some (PList [PInt 1, PInt 2]))))
          list_assertion_call) = Inl (AssertionError NoMessage)"
  by (simp add: list_assertion_call_def exec_defs)

text \<open>
  Claim C5, at the list \<^verbatim>\<open>[1, 2]\<close>. The default template augments to the default call;
  the same template with the assertion value \<^verbatim>\<open>[1, 2]\<close>, a sequence as the
  \<^verbatim>\<open>Assertion\<close> type declares it and as \<^verbatim>\<open>assert_response\<close> has a branch for, is not
  accepted: \<^verbatim>\<open>augment_rest_call\<close> raises \<^verbatim>\<open>ValueError\<close> ``Assertion must be a string or
  a dict.'' for the kind of the value, so the call is never executed.
\<close>

theorem augment_rest_call_rejects_list_value_example:
  "augment_rest_call (stub_env (reply 200 [] None)) default_raw_rest_call ''/project''
     = Inr default_rest_call \<and>
   augment_rest_call (stub_env (reply 200 [] None)) list_assertion_raw_call ''/project''
     = Inl (ValueError ''Assertion must be a string or a dict.'')"
  by (simp add: list_assertion_raw_call_def augment_defs default_rest_call_def)

end
